theory Spec2Isabelle
  imports Main "HOL-Library.Word"
begin

chapter \<open>The snippets of the React Native TypeScript guides\<close>

text \<open>
  The repository is two guide documents, \<^verbatim>\<open>Guide.tsx\<close> and \<^verbatim>\<open>KeyPoint.tsx\<close>, whose
  code blocks declare types and a handful of functions. This theory embeds the functions
  that compute something: the counter reducer, the API client and its caller, the form
  field update, the media type guards (all in \<^verbatim>\<open>Guide.tsx\<close>), the theme context and the
  error handler (in \<^verbatim>\<open>KeyPoint.tsx\<close>); and it records, for every code block, the names
  it declares and the names it takes from outside.
\<close>

section \<open>JavaScript values\<close>

text \<open>
  Numbers are IEEE doubles in the source. Where a function only stores a number or prints
  it, the number type is a type variable \<open>'n\<close>, and the conversion that a template literal
  applies to a number is a parameter \<open>toString\<close> of the function, so that nothing is
  assumed about either. The fields of \<^verbatim>\<open>Media\<close>, which are only copied, are integers.
\<close>

type_synonym number = int

text \<open>
  For concrete runs: an HTTP status is an unsigned short, and a template literal prints
  an unsigned short as its decimal digits.
\<close>

fun digit_chars :: "nat \<Rightarrow> string" where
  "digit_chars n =
     (if n < 10 then [''0123456789'' ! n]
      else digit_chars (n div 10) @ [''0123456789'' ! (n mod 10)])"

definition unsigned_short_toString :: "16 word \<Rightarrow> string" where
  "unsigned_short_toString n = digit_chars (unat n)"

text \<open>
  A value that is no \<^verbatim>\<open>Error\<close> instance: a primitive or a plain object (its properties
  in order, the first entry of a name being the one that is read).
\<close>

datatype 'n data =
    Undefined
  | Null
  | Boolean bool
  | Number 'n
  | String string
  | Object "(string \<times> 'n data) list"

text \<open>
  The values of type \<^verbatim>\<open>unknown\<close> that the development distinguishes. \<open>ApiError m s\<close> is
  the object \<^verbatim>\<open>new ApiError(m, s)\<close> of \<^verbatim>\<open>KeyPoint.tsx\<close> lines 349-357, which adds \<^verbatim>\<open>status\<close>
  to the message that \<^verbatim>\<open>super(message)\<close> stores; \<open>ValidationError m f\<close> is
  \<^verbatim>\<open>new ValidationError(m, f)\<close> of lines 359-367; \<open>Error m\<close> is \<^verbatim>\<open>new Error(m)\<close>.
  \<open>RevokedProxy\<close> is a proxy object after \<^verbatim>\<open>revoke()\<close>: every operation on it, the
  prototype lookup of \<^verbatim>\<open>instanceof\<close> and a property read among them, throws a
  \<^verbatim>\<open>TypeError\<close>.
\<close>

datatype 'n unknown =
    ApiError (message: string) (status: 'n)
  | ValidationError (message: string) (field: string)
  | Error (message: string)
  | NonError "'n data"
  | RevokedProxy

text \<open>The exception that the language itself raises in these snippets.\<close>

datatype exception = TypeError

text \<open>
  The classes that appear on the right of \<^verbatim>\<open>instanceof\<close>, with the \<^verbatim>\<open>extends\<close> clauses
  of the two class declarations. The prototype chain of a class is the class followed by
  the chain of the class it extends.
\<close>

datatype constructor = ApiError_class | ValidationError_class | Error_class

fun extends :: "constructor \<Rightarrow> constructor option" where
  "extends ApiError_class = Some Error_class"
| "extends ValidationError_class = Some Error_class"
| "extends Error_class = None"

function prototype_chain :: "constructor \<Rightarrow> constructor list" where
  "prototype_chain c =
     c # (case extends c of None \<Rightarrow> [] | Some parent \<Rightarrow> prototype_chain parent)"
  by pat_completeness auto
termination
  by (relation "measure (\<lambda>c. if c = Error_class then 0 else 1)") (auto elim: extends.elims)

text \<open>The class whose constructor made an object; a primitive or a plain object has none of the three.\<close>

fun constructed_by :: "'n unknown \<Rightarrow> constructor option" where
  "constructed_by (ApiError m s) = Some ApiError_class"
| "constructed_by (ValidationError m f) = Some ValidationError_class"
| "constructed_by (Error m) = Some Error_class"
| "constructed_by v = None"

text \<open>
  \<^verbatim>\<open>v instanceof c\<close> looks for the prototype of \<open>c\<close> along the prototype chain of \<open>v\<close>. On a
  revoked proxy the lookup throws.
\<close>

fun instanceof :: "'n unknown \<Rightarrow> constructor \<Rightarrow> exception + bool" where
  "instanceof RevokedProxy c = Inl TypeError"
| "instanceof v c =
     Inr (case constructed_by v of
            None \<Rightarrow> False
          | Some made_by \<Rightarrow> c \<in> set (prototype_chain made_by))"

section \<open>Guide.tsx: handling state (lines 161-179)\<close>

text \<open>
  \<^verbatim>\<open>Action\<close> is a union discriminated by \<^verbatim>\<open>type\<close>. The record holds the two properties
  the reducer reads; \<^verbatim>\<open>payload\<close> is not read for \<^verbatim>\<open>RESET\<close>. A record whose \<open>type\<close> is
  none of the three tags is an object outside the union, the only way into the
  \<^verbatim>\<open>default\<close> branch. The number type is left open: the reducer uses only \<open>+\<close>, \<open>-\<close>
  and \<open>0\<close>.
\<close>

record 'n Action =
  type :: string
  payload :: 'n

definition counterReducer :: "'n::{plus,minus,zero} \<Rightarrow> 'n Action \<Rightarrow> 'n" where
  "counterReducer state action =
     (if type action = ''INCREMENT'' then state + payload action
      else if type action = ''DECREMENT'' then state - payload action
      else if type action = ''RESET'' then 0
      else state)"

section \<open>Guide.tsx: API and async operations (lines 266-300)\<close>

record User =
  User_id :: string
  User_name :: string
  User_email :: string
  createdAt :: string

text \<open>
  An awaited promise either rejects with a value (\<open>Inl\<close>) or fulfils (\<open>Inr\<close>); \<^verbatim>\<open>await\<close>
  on a rejected promise throws the value. \<open>json\<close> is the outcome of
  \<^verbatim>\<open>await response.json()\<close>, and \<open>fetch\<close>, the platform's function, is a parameter.
\<close>

type_synonym ('n, 'a) Promise = "'n unknown + 'a"

record 'n Response =
  ok :: bool
  status :: 'n
  json :: "('n, User) Promise"

type_synonym 'n console = "(string \<times> 'n unknown) list"

definition fetchUser_try ::
  "('n \<Rightarrow> string) \<Rightarrow> (string \<Rightarrow> ('n, 'n Response) Promise) \<Rightarrow> string \<Rightarrow> ('n, User) Promise" where
  "fetchUser_try toString fetch userId =
     (case fetch (''https://api.example.com/users/'' @ userId) of
        Inl rejected \<Rightarrow> Inl rejected
      | Inr response \<Rightarrow>
          if \<not> ok response
          then Inl (Error (''HTTP error: '' @ toString (Response.status response)))
          else (case json response of
                  Inl rejected \<Rightarrow> Inl rejected
                | Inr data \<Rightarrow> Inr data))"

definition fetchUser ::
  "('n \<Rightarrow> string) \<Rightarrow> (string \<Rightarrow> ('n, 'n Response) Promise) \<Rightarrow> string \<Rightarrow> 'n console
     \<Rightarrow> 'n console \<times> ('n, User) Promise" where
  "fetchUser toString fetch userId console =
     (case fetchUser_try toString fetch userId of
        Inr data \<Rightarrow> (console, Inr data)
      | Inl error \<Rightarrow> (console @ [(''Error fetching user:'', error)], Inl error))"

text \<open>
  \<^verbatim>\<open>loadUserData\<close> calls three setters that its code block does not declare; they are
  the setters of a component state with these three parts (\<^verbatim>\<open>setUser\<close>, \<^verbatim>\<open>setError\<close> and
  \<^verbatim>\<open>setLoading\<close> each replace one). \<open>get_message\<close> is the
  property read \<^verbatim>\<open>error.message\<close> in its \<^verbatim>\<open>catch\<close>: \<open>None\<close> where the read itself throws
  a \<^verbatim>\<open>TypeError\<close> (on \<^verbatim>\<open>null\<close>, \<^verbatim>\<open>undefined\<close> and a revoked proxy).
\<close>

record 'n ComponentState =
  user_state :: "User option"
  error_state :: "'n data"
  loading_state :: bool

fun get_message :: "'n unknown \<Rightarrow> 'n data option" where
  "get_message RevokedProxy = None"
| "get_message (NonError Undefined) = None"
| "get_message (NonError Null) = None"
| "get_message (NonError (Object properties)) =
     Some (case map_of properties ''message'' of None \<Rightarrow> Undefined | Some v \<Rightarrow> v)"
| "get_message (NonError v) = Some Undefined"
| "get_message e = Some (String (message e))"

datatype settled = Fulfilled | Rejected_TypeError

definition loadUserData ::
  "('n \<Rightarrow> string) \<Rightarrow> (string \<Rightarrow> ('n, 'n Response) Promise) \<Rightarrow> 'n ComponentState \<Rightarrow> 'n console
     \<Rightarrow> 'n ComponentState \<times> 'n console \<times> settled" where
  "loadUserData toString fetch st console =
     (case fetchUser toString fetch ''123'' console of
        (console', Inr user) \<Rightarrow>
          (st\<lparr>user_state := Some user, loading_state := False\<rparr>, console', Fulfilled)
      | (console', Inl error) \<Rightarrow>
          (case get_message error of
             Some m \<Rightarrow> (st\<lparr>error_state := m, loading_state := False\<rparr>, console', Fulfilled)
           | None \<Rightarrow> (st\<lparr>loading_state := False\<rparr>, console', Rejected_TypeError)))"

section \<open>Guide.tsx: form handling (lines 351-385)\<close>

record LoginForm =
  email :: string
  password :: string
  rememberMe :: bool

datatype keyof_LoginForm = email_key | password_key | rememberMe_key

text \<open>
  \<^verbatim>\<open>FormErrors\<close> is \<^verbatim>\<open>Partial<Record<keyof LoginForm, string>>\<close>: reading a field gives a
  string or \<^verbatim>\<open>undefined\<close> (\<open>None\<close>), whether the property is absent or holds
  \<^verbatim>\<open>undefined\<close>.
\<close>

type_synonym FormErrors = "keyof_LoginForm \<Rightarrow> string option"

text \<open>
  The two arguments of \<^verbatim>\<open>updateField\<close>, \<^verbatim>\<open>field: T\<close> and \<^verbatim>\<open>value: LoginForm[T]\<close>, as one
  value: a field together with a value of that field's type.
\<close>

datatype field_value =
    email_value string
  | password_value string
  | rememberMe_value bool

fun field_of :: "field_value \<Rightarrow> keyof_LoginForm" where
  "field_of (email_value v) = email_key"
| "field_of (password_value v) = password_key"
| "field_of (rememberMe_value v) = rememberMe_key"

text \<open>The object \<^verbatim>\<open>{ ...prev, [field]: value }\<close>.\<close>

fun spread_with :: "LoginForm \<Rightarrow> field_value \<Rightarrow> LoginForm" where
  "spread_with prev (email_value v) = prev\<lparr>email := v\<rparr>"
| "spread_with prev (password_value v) = prev\<lparr>password := v\<rparr>"
| "spread_with prev (rememberMe_value v) = prev\<lparr>rememberMe := v\<rparr>"

text \<open>\<^verbatim>\<open>if (errors[field])\<close>: a string is truthy unless it is empty, \<^verbatim>\<open>undefined\<close> is falsy.\<close>

fun truthy :: "string option \<Rightarrow> bool" where
  "truthy None = False"
| "truthy (Some s) = (s \<noteq> [])"

record FormState =
  form :: LoginForm
  errors :: FormErrors

text \<open>
  One call of \<^verbatim>\<open>updateField\<close> in a render whose \<^verbatim>\<open>errors\<close> is the current error state, so
  that the \<^verbatim>\<open>errors\<close> it tests and the \<^verbatim>\<open>prev\<close> its updater receives are the same map.
\<close>

definition updateField :: "field_value \<Rightarrow> FormState \<Rightarrow> FormState" where
  "updateField fv st =
     (let st' = st\<lparr>form := spread_with (form st) fv\<rparr>
      in if truthy (errors st (field_of fv))
         then st'\<lparr>errors := (errors st)(field_of fv := None)\<rparr>
         else st')"

section \<open>Guide.tsx: type guards (lines 424-472)\<close>

datatype Media =
    PhotoMedia (uri: string) (width: number) (height: number)
  | VideoMedia (uri: string) (duration: number) (thumbnail: string)

text \<open>The discriminant \<^verbatim>\<open>media.type\<close>, fixed by each interface as a literal type.\<close>

fun Media_type :: "Media \<Rightarrow> string" where
  "Media_type (PhotoMedia u w h) = ''photo''"
| "Media_type (VideoMedia u d t) = ''video''"

definition isPhoto :: "Media \<Rightarrow> bool" where
  "isPhoto media = (Media_type media = ''photo'')"

definition isVideo :: "Media \<Rightarrow> bool" where
  "isVideo media = (Media_type media = ''video'')"

text \<open>
  What \<^verbatim>\<open>MediaItem\<close> renders: an image with its source and optional size, a text with its
  children, a view with its children; \<open>None\<close> is \<^verbatim>\<open>null\<close>.
\<close>

datatype text_child = Chars string | Num number

datatype Element =
    Image string "(number \<times> number) option"
  | Text "text_child list"
  | View "Element list"

definition MediaItem :: "Media \<Rightarrow> Element option" where
  "MediaItem media =
     (if isPhoto media
      then Some (Image (uri media) (Some (width media, height media)))
      else if isVideo media
      then Some (View [Image (thumbnail media) None,
                       Text [Chars ''Duration: '', Num (duration media), Chars ''s'']])
      else None)"

section \<open>KeyPoint.tsx: the theme context (lines 179-239)\<close>

datatype Theme = light | dark | system

record ThemeColors =
  background :: string
  "text" :: string
  primary :: string
  secondary :: string

fun defaultColors :: "Theme \<Rightarrow> ThemeColors" where
  "defaultColors light =
     \<lparr>background = ''#FFFFFF'', text = ''#000000'', primary = ''#007AFF'', secondary = ''#5856D6''\<rparr>"
| "defaultColors dark =
     \<lparr>background = ''#000000'', text = ''#FFFFFF'', primary = ''#0A84FF'', secondary = ''#5E5CE6''\<rparr>"
| "defaultColors system =
     \<lparr>background = ''#FFFFFF'', text = ''#000000'', primary = ''#007AFF'', secondary = ''#5856D6''\<rparr>"

text \<open>
  The provider's state is the \<^verbatim>\<open>theme\<close> of \<^verbatim>\<open>useState<Theme>('light')\<close>. The setter that
  \<^verbatim>\<open>useState\<close> returns replaces the state; in the context value it is a function from
  the new theme to a change of the provider's state.
\<close>

definition useState_setter :: "'s \<Rightarrow> 's \<Rightarrow> 's" where
  "useState_setter new old = new"

record ThemeContextType =
  theme :: Theme
  colors :: ThemeColors
  setTheme :: "Theme \<Rightarrow> Theme \<Rightarrow> Theme"

definition ThemeProvider_initial :: Theme where
  "ThemeProvider_initial = light"

text \<open>The \<^verbatim>\<open>value\<close> that \<^verbatim>\<open>ThemeProvider\<close> passes down when its state is \<open>current\<close>.\<close>

definition ThemeProvider_value :: "Theme \<Rightarrow> ThemeContextType" where
  "ThemeProvider_value current =
     \<lparr>theme = current, colors = defaultColors current, setTheme = useState_setter\<rparr>"

text \<open>
  React's \<^verbatim>\<open>useContext\<close>: the value of the nearest enclosing provider, or the default
  given to \<^verbatim>\<open>createContext\<close> when there is none. The providers are listed from the
  nearest outwards. \<^verbatim>\<open>ThemeContext\<close> is not exported, so its providers are the
  \<^verbatim>\<open>ThemeProvider\<close>s around the caller, given by their states.
\<close>

fun useContext :: "'a \<Rightarrow> 'a list \<Rightarrow> 'a" where
  "useContext defaultValue [] = defaultValue"
| "useContext defaultValue (v # outer) = v"

definition useTheme :: "Theme list \<Rightarrow> 'n unknown + ThemeContextType" where
  "useTheme providers =
     (case useContext None (map (\<lambda>s. Some (ThemeProvider_value s)) providers) of
        None \<Rightarrow> Inl (Error ''useTheme must be used within a ThemeProvider'')
      | Some context \<Rightarrow> Inr context)"

section \<open>KeyPoint.tsx: type-safe error handling (lines 349-389)\<close>

definition isApiError :: "'n unknown \<Rightarrow> exception + bool" where
  "isApiError error = instanceof error ApiError_class"

definition isValidationError :: "'n unknown \<Rightarrow> exception + bool" where
  "isValidationError error = instanceof error ValidationError_class"

text \<open>
  The \<^verbatim>\<open>if\<close> chain of \<^verbatim>\<open>handleError\<close>. A test that throws ends the call with what it
  threw.
\<close>

definition handleError :: "('n \<Rightarrow> string) \<Rightarrow> 'n unknown \<Rightarrow> exception + string" where
  "handleError toString error =
     (case isApiError error of
        Inl thrown \<Rightarrow> Inl thrown
      | Inr is_api \<Rightarrow>
          if is_api
          then Inr (''API Error ('' @ toString (unknown.status error) @ ''): '' @ message error)
          else (case isValidationError error of
                  Inl thrown \<Rightarrow> Inl thrown
                | Inr is_validation \<Rightarrow>
                    if is_validation
                    then Inr (''Validation Error in '' @ field error @ '': '' @ message error)
                    else (case instanceof error Error_class of
                            Inl thrown \<Rightarrow> Inl thrown
                          | Inr is_error \<Rightarrow>
                              if is_error
                              then Inr (''Error: '' @ message error)
                              else Inr ''An unknown error occurred'')))"

section \<open>The code blocks and their names\<close>

text \<open>
  Every code block of the two documents, by the lines of its code. \<open>declares\<close> lists the
  names its top-level declarations bind (constants, functions, classes, interfaces, type
  aliases, enums). \<open>outside\<close> lists the identifiers it uses that it neither declares, nor
  imports, nor binds as a parameter or a local: names it expects from somewhere else. The
  keywords and literals of the language (\<^verbatim>\<open>undefined\<close> among them) are not identifiers,
  and a re-export (\<^verbatim>\<open>export { default as Button } from './Button'\<close>) binds no name. The
  shell and JSON blocks contain no identifiers.
\<close>

record code_block =
  document :: string
  first_line :: nat
  last_line :: nat
  declares :: "string list"
  outside :: "string list"

definition Guide_blocks :: "code_block list" where
  "Guide_blocks =
    [\<lparr>document = ''Guide.tsx'', first_line = 11, last_line = 12, declares = [], outside = []\<rparr>,
     \<lparr>document = ''Guide.tsx'', first_line = 17, last_line = 21, declares = [], outside = []\<rparr>,
     \<lparr>document = ''Guide.tsx'', first_line = 26, last_line = 39, declares = [], outside = []\<rparr>,
     \<lparr>document = ''Guide.tsx'', first_line = 47, last_line = 60,
      declares = [''GreetingProps'', ''Greeting''],
      outside = [''React'', ''TouchableOpacity'', ''Text'']\<rparr>,
     \<lparr>document = ''Guide.tsx'', first_line = 66, last_line = 90,
      declares = [''Styles'', ''styles''],
      outside = []\<rparr>,
     \<lparr>document = ''Guide.tsx'', first_line = 96, last_line = 110,
      declares = [''handleChange'', ''handlePress''],
      outside = [''console'']\<rparr>,
     \<lparr>document = ''Guide.tsx'', first_line = 118, last_line = 137,
      declares = [''CustomButtonProps'', ''CustomButton''],
      outside = [''React'']\<rparr>,
     \<lparr>document = ''Guide.tsx'', first_line = 143, last_line = 179,
      declares = [''count'', ''setCount'', ''UserState'', ''user'', ''setUser'', ''Action'',
                  ''counterReducer'', ''state'', ''dispatch''],
      outside = [''useState'', ''useReducer'']\<rparr>,
     \<lparr>document = ''Guide.tsx'', first_line = 185, last_line = 224,
      declares = [''RootStackParamList'', ''Stack'', ''ProfileScreenNavigationProp'',
                  ''ProfileScreenRouteProp'', ''ProfileScreenProps'', ''ProfileScreen''],
      outside = [''React'', ''View'', ''Text'', ''Button'']\<rparr>,
     \<lparr>document = ''Guide.tsx'', first_line = 230, last_line = 259,
      declares = [''getLocation'', ''pickImage''],
      outside = [''console'']\<rparr>,
     \<lparr>document = ''Guide.tsx'', first_line = 265, last_line = 300,
      declares = [''User'', ''fetchUser'', ''loadUserData''],
      outside = [''Promise'', ''fetch'', ''Error'', ''console'', ''setUser'', ''setError'',
                 ''setLoading'']\<rparr>,
     \<lparr>document = ''Guide.tsx'', first_line = 306, last_line = 344,
      declares = [''ThemeMode'', ''Theme'', ''Nullable'', ''LoadingState'',
                  ''createInitialState'', ''userState''],
      outside = [''User'']\<rparr>,
     \<lparr>document = ''Guide.tsx'', first_line = 350, last_line = 385,
      declares = [''LoginForm'', ''FormErrors'', ''form'', ''setForm'', ''errors'', ''setErrors'',
                  ''updateField''],
      outside = [''Partial'', ''Record'', ''useState'']\<rparr>,
     \<lparr>document = ''Guide.tsx'', first_line = 393, last_line = 417,
      declares = [''ListProps'', ''List''],
      outside = [''React'', ''ScrollView'', ''View'', ''users'', ''Text'']\<rparr>,
     \<lparr>document = ''Guide.tsx'', first_line = 423, last_line = 472,
      declares = [''PhotoMedia'', ''VideoMedia'', ''Media'', ''isPhoto'', ''isVideo'', ''MediaItem''],
      outside = [''React'', ''Image'', ''View'', ''Text'']\<rparr>]"

definition KeyPoint_blocks :: "code_block list" where
  "KeyPoint_blocks =
    [\<lparr>document = ''KeyPoint.tsx'', first_line = 4, last_line = 12, declares = [], outside = []\<rparr>,
     \<lparr>document = ''KeyPoint.tsx'', first_line = 27, last_line = 44,
      declares = [''Props'', ''BestPracticeComponent''],
      outside = []\<rparr>,
     \<lparr>document = ''KeyPoint.tsx'', first_line = 48, last_line = 75,
      declares = [''ContainerProps'', ''Container'', ''styles''],
      outside = []\<rparr>,
     \<lparr>document = ''KeyPoint.tsx'', first_line = 82, last_line = 110,
      declares = [''User'', ''Product'', ''ApiResponse'', ''ButtonProps''],
      outside = []\<rparr>,
     \<lparr>document = ''KeyPoint.tsx'', first_line = 116, last_line = 119, declares = [], outside = []\<rparr>,
     \<lparr>document = ''KeyPoint.tsx'', first_line = 124, last_line = 173,
      declares = [''ActionTypes'', ''Todo'', ''AddTodoAction'', ''ToggleTodoAction'',
                  ''RemoveTodoAction'', ''TodoActions'', ''TodoState'', ''RootState''],
      outside = []\<rparr>,
     \<lparr>document = ''KeyPoint.tsx'', first_line = 177, last_line = 239,
      declares = [''Theme'', ''ThemeColors'', ''ThemeContextType'', ''defaultColors'',
                  ''ThemeContext'', ''ThemeProvider'', ''useTheme''],
      outside = [''Record'', ''Error'']\<rparr>,
     \<lparr>document = ''KeyPoint.tsx'', first_line = 244, last_line = 256,
      declares = [''Props'', ''MemoizedComponent''],
      outside = []\<rparr>,
     \<lparr>document = ''KeyPoint.tsx'', first_line = 260, last_line = 282,
      declares = [''Item'', ''useItemHandlers''],
      outside = [''console'']\<rparr>,
     \<lparr>document = ''KeyPoint.tsx'', first_line = 287, last_line = 308,
      declares = [],
      outside = [''describe'', ''it'', ''jest'', ''expect'']\<rparr>,
     \<lparr>document = ''KeyPoint.tsx'', first_line = 313, last_line = 343,
      declares = [''User'', ''PublicUser'', ''UserProfile'', ''UserUpdate'',
                  ''RequiredUserFields'', ''ReadOnlyUser'', ''UserRole'', ''UserMap''],
      outside = [''Date'', ''Omit'', ''Pick'', ''Partial'', ''Required'', ''Readonly'', ''Record'']\<rparr>,
     \<lparr>document = ''KeyPoint.tsx'', first_line = 348, last_line = 389,
      declares = [''ApiError'', ''ValidationError'', ''isApiError'', ''isValidationError'',
                  ''handleError''],
      outside = [''Error'']\<rparr>]"

definition code_blocks :: "code_block list" where
  "code_blocks = Guide_blocks @ KeyPoint_blocks"

text \<open>A block is named by its document and its first line.\<close>

definition place :: "code_block \<Rightarrow> string \<times> nat" where
  "place b = (document b, first_line b)"

text \<open>The blocks that declare a name.\<close>

definition declared_in :: "string \<Rightarrow> (string \<times> nat) list" where
  "declared_in n = map place (filter (\<lambda>b. n \<in> set (declares b)) code_blocks)"

text \<open>
  Every triple of a block, a name the block takes from outside, and a block that declares
  that name.
\<close>

definition taken_from_other_blocks :: "((string \<times> nat) \<times> string \<times> (string \<times> nat)) list" where
  "taken_from_other_blocks =
     concat (map (\<lambda>b. concat (map (\<lambda>n. map (\<lambda>p. (place b, n, p)) (declared_in n)) (outside b)))
       code_blocks)"

text \<open>The names that a block lists as taken from outside although it declares them.\<close>

definition own_names_outside :: "string list" where
  "own_names_outside =
     concat (map (\<lambda>b. filter (\<lambda>n. n \<in> set (declares b)) (outside b)) code_blocks)"

section \<open>The counter reducer\<close>

text \<open>
  C1. For every state \<open>s\<close> and every action \<open>a\<close>, \<open>counterReducer s a\<close> is
  \<open>s + payload a\<close> when the action's type is \<^verbatim>\<open>INCREMENT\<close>, \<open>s - payload a\<close> when it is
  \<^verbatim>\<open>DECREMENT\<close>, \<open>0\<close> when it is \<^verbatim>\<open>RESET\<close>, and \<open>s\<close> itself for an action of any other
  type. The reducer is a function of its two arguments and of nothing else. The statement
  holds in every number type, the integers among them.
\<close>

theorem counterReducer_switch:
  fixes s :: "'n::{plus,minus,zero}"
  shows "(type a = ''INCREMENT'' \<longrightarrow> counterReducer s a = s + payload a) \<and>
         (type a = ''DECREMENT'' \<longrightarrow> counterReducer s a = s - payload a) \<and>
         (type a = ''RESET'' \<longrightarrow> counterReducer s a = 0) \<and>
         (type a \<notin> {''INCREMENT'', ''DECREMENT'', ''RESET''} \<longrightarrow> counterReducer s a = s)"
  by (simp add: counterReducer_def)

theorem counterReducer_switch_witness:
  "counterReducer (5::int) \<lparr>type = ''INCREMENT'', payload = 3\<rparr> = 8 \<and>
   counterReducer (5::int) \<lparr>type = ''DECREMENT'', payload = 7\<rparr> = - 2 \<and>
   counterReducer (5::int) \<lparr>type = ''RESET'', payload = 7\<rparr> = 0 \<and>
   counterReducer (5::int) \<lparr>type = ''TOGGLE'', payload = 7\<rparr> = 5"
  using counterReducer_switch [of "\<lparr>type = ''INCREMENT'', payload = 3\<rparr>" "5::int"]
        counterReducer_switch [of "\<lparr>type = ''DECREMENT'', payload = 7\<rparr>" "5::int"]
        counterReducer_switch [of "\<lparr>type = ''RESET'', payload = 7\<rparr>" "5::int"]
        counterReducer_switch [of "\<lparr>type = ''TOGGLE'', payload = 7\<rparr>" "5::int"]
  by simp

section \<open>The error handler and its type guards\<close>

lemma handleError_example:
  "handleError unsigned_short_toString (ApiError ''Not Found'' 404) =
     Inr ''API Error (404): Not Found''"
  by (simp add: handleError_def isApiError_def unsigned_short_toString_def)



text \<open>
  C5, as the specification states it: both type guards are total on \<^verbatim>\<open>unknown\<close> and never
  throw. A revoked proxy refutes it: \<^verbatim>\<open>instanceof\<close> throws a \<^verbatim>\<open>TypeError\<close> on it, and so
  do both guards.
\<close>

theorem type_guards_revoked_proxy_counterexample:
  "isApiError (RevokedProxy :: 16 word unknown) = Inl TypeError \<and>
   isValidationError (RevokedProxy :: 16 word unknown) = Inl TypeError"
  by (simp add: isApiError_def isValidationError_def)

text \<open>
  C5, amended. Whenever a guard returns, it decides membership exactly: \<open>isApiError e\<close>
  returns true if and only if \<open>e\<close> is an instance of \<^verbatim>\<open>ApiError\<close>, and
  \<open>isValidationError e\<close> returns true if and only if \<open>e\<close> is an instance of
  \<^verbatim>\<open>ValidationError\<close>. The guards are not total: each throws a \<^verbatim>\<open>TypeError\<close> on a revoked
  proxy, and among the values distinguished here on no other.
\<close>

theorem type_guards_exact:
  "(isApiError e = Inr True \<longleftrightarrow> (\<exists>m s. e = ApiError m s)) \<and>
   (isValidationError e = Inr True \<longleftrightarrow> (\<exists>m f. e = ValidationError m f)) \<and>
   (isApiError e = Inl TypeError \<longleftrightarrow> e = RevokedProxy) \<and>
   (isValidationError e = Inl TypeError \<longleftrightarrow> e = RevokedProxy)"
  by (cases e) (simp_all add: isApiError_def isValidationError_def)

section \<open>The media type guards\<close>

text \<open>
  C6. For every \<open>m\<close> of type \<^verbatim>\<open>Media\<close> the discriminant is \<^verbatim>\<open>photo\<close> or \<^verbatim>\<open>video\<close>, exactly
  one of \<open>isPhoto m\<close> and \<open>isVideo m\<close> holds, and \<open>MediaItem\<close> returns from the photo
  branch (the image with the photo's size) or from the video branch (the thumbnail and
  the duration text); it never reaches the final \<^verbatim>\<open>return null\<close>.
\<close>

theorem MediaItem_exhaustive:
  "(Media_type m = ''photo'' \<or> Media_type m = ''video'') \<and>
   (isPhoto m \<longleftrightarrow> \<not> isVideo m) \<and>
   MediaItem m \<noteq> None \<and>
   MediaItem (PhotoMedia u w h) = Some (Image u (Some (w, h))) \<and>
   MediaItem (VideoMedia u' d t) =
     Some (View [Image t None, Text [Chars ''Duration: '', Num d, Chars ''s'']])"
  by (cases m) (simp_all add: MediaItem_def isPhoto_def isVideo_def)

section \<open>The form field update\<close>

text \<open>
  When the tested entry is a non-empty message it is cleared; an empty message is falsy
  and stays.
\<close>

lemma updateField_clears_message:
  "errors st (field_of fv) = Some msg \<Longrightarrow> msg \<noteq> [] \<Longrightarrow>
     errors (updateField fv st) (field_of fv) = None"
  by (simp add: updateField_def Let_def)

lemma updateField_keeps_empty_message:
  "errors st (field_of fv) = Some [] \<Longrightarrow> errors (updateField fv st) = errors st"
  by (simp add: updateField_def Let_def)

text \<open>
  C7. \<open>updateField\<close> leaves a form that is the old one with the given field replaced by
  the given value, the other two fields as they were. The error map afterwards is the old
  one or the old one with the entry of that field set to \<^verbatim>\<open>undefined\<close>; it differs from the
  old one only if that entry was present before; and the entry of every other field is
  unchanged.
\<close>

theorem updateField_frame:
  "form (updateField (email_value v) st) = (form st)\<lparr>email := v\<rparr> \<and>
   form (updateField (password_value v) st) = (form st)\<lparr>password := v\<rparr> \<and>
   form (updateField (rememberMe_value b) st) = (form st)\<lparr>rememberMe := b\<rparr> \<and>
   (errors (updateField fv st) = errors st \<or>
    errors (updateField fv st) = (errors st)(field_of fv := None)) \<and>
   (errors (updateField fv st) \<noteq> errors st \<longrightarrow> errors st (field_of fv) \<noteq> None) \<and>
   (k \<noteq> field_of fv \<longrightarrow> errors (updateField fv st) k = errors st k)"
  by (auto simp: updateField_def Let_def)

theorem updateField_frame_witness:
  "errors (updateField (email_value ''a@b.c'')
       \<lparr>form = \<lparr>email = [], password = ''pw'', rememberMe = True\<rparr>,
        errors = (\<lambda>k. None)(email_key \<mapsto> ''Required'', password_key \<mapsto> ''Too short'')\<rparr>)
     \<noteq> (\<lambda>k. None)(email_key \<mapsto> ''Required'', password_key \<mapsto> ''Too short'') \<and>
   ((\<lambda>k. None)(email_key \<mapsto> ''Required'', password_key \<mapsto> ''Too short'')) email_key \<noteq> None \<and>
   password_key \<noteq> field_of (email_value ''a@b.c'') \<and>
   errors (updateField (email_value ''a@b.c'')
       \<lparr>form = \<lparr>email = [], password = ''pw'', rememberMe = True\<rparr>,
        errors = (\<lambda>k. None)(email_key \<mapsto> ''Required'', password_key \<mapsto> ''Too short'')\<rparr>) password_key
     = Some ''Too short''"
  using updateField_frame [of "''a@b.c''"
      "\<lparr>form = \<lparr>email = [], password = ''pw'', rememberMe = True\<rparr>,
        errors = (\<lambda>k. None)(email_key \<mapsto> ''Required'', password_key \<mapsto> ''Too short'')\<rparr>"
      _ "email_value ''a@b.c''" password_key]
  by (auto simp: updateField_def Let_def fun_eq_iff)

section \<open>The theme context\<close>

text \<open>
  C8. \<open>useTheme\<close> returns the context value of the nearest enclosing \<^verbatim>\<open>ThemeProvider\<close>. It
  throws \<^verbatim>\<open>Error('useTheme must be used within a ThemeProvider')\<close> when there is no
  enclosing provider, and only then. What it returns is a \<^verbatim>\<open>ThemeContextType\<close>, never
  \<^verbatim>\<open>undefined\<close>.
\<close>

theorem useTheme_nearest_provider:
  "useTheme [] = Inl (Error ''useTheme must be used within a ThemeProvider'') \<and>
   useTheme (s # outer) = Inr (ThemeProvider_value s) \<and>
   ((\<exists>e. useTheme providers = Inl e) \<longleftrightarrow> providers = [])"
  by (cases providers) (simp_all add: useTheme_def)

text \<open>
  C3, as the specification states it: no predicate on a snippet's state is preserved by
  every operation of the snippet, the theme provider's \<^verbatim>\<open>setTheme\<close> being one example.
  The theme provider refutes it. The predicate "the colours are \<^verbatim>\<open>defaultColors[theme]\<close>"
  holds of the context value after every \<^verbatim>\<open>setTheme\<close> from every state, it holds of the
  initial value, and it is a real constraint: the value pairing \<^verbatim>\<open>light\<close> with the dark
  colours violates it.
\<close>

theorem theme_invariant_counterexample:
  "(\<forall>s t. colors (ThemeProvider_value (setTheme (ThemeProvider_value s) t s)) =
            defaultColors (theme (ThemeProvider_value (setTheme (ThemeProvider_value s) t s)))) \<and>
   colors (ThemeProvider_value ThemeProvider_initial) =
     defaultColors (theme (ThemeProvider_value ThemeProvider_initial)) \<and>
   colors \<lparr>theme = light, colors = defaultColors dark, setTheme = useState_setter\<rparr> \<noteq>
     defaultColors (theme \<lparr>theme = light, colors = defaultColors dark, setTheme = useState_setter\<rparr>)"
  by (simp add: ThemeProvider_value_def)

text \<open>
  C3, amended. The theme provider keeps an invariant: in every state its context value
  has the colours \<^verbatim>\<open>defaultColors[theme]\<close>, and \<^verbatim>\<open>setTheme(t)\<close> leads to the state whose
  theme is \<open>t\<close>. The counter reducer keeps no predicate that holds of some state and fails
  of a state \<open>s2\<close> with \<open>0 + s2 = s2\<close>: some action takes a state where such a predicate
  holds to a state where it fails (\<^verbatim>\<open>RESET\<close> if it fails of \<open>0\<close>, and otherwise
  \<^verbatim>\<open>INCREMENT\<close> with payload \<open>s2\<close> in state \<open>0\<close>). The number type is any with \<open>+\<close>, \<open>-\<close>
  and \<open>0\<close>; no law of arithmetic is used beyond the stated \<open>0 + s2 = s2\<close>.
\<close>

theorem theme_invariant_counter_none:
  fixes P :: "'n::{plus,minus,zero} \<Rightarrow> bool"
  shows
  "colors (ThemeProvider_value s) = defaultColors (theme (ThemeProvider_value s)) \<and>
   theme (ThemeProvider_value (setTheme (ThemeProvider_value s) t s)) = t \<and>
   (P s1 \<and> \<not> P s2 \<and> 0 + s2 = s2 \<longrightarrow> (\<exists>s' a. P s' \<and> \<not> P (counterReducer s' a)))"
proof -
  have reset: "counterReducer s1 \<lparr>type = ''RESET'', payload = s2\<rparr> = 0"
    by (simp add: counterReducer_def)
  have increment: "counterReducer 0 \<lparr>type = ''INCREMENT'', payload = s2\<rparr> = 0 + s2"
    by (simp add: counterReducer_def)
  have "\<exists>s' a. P s' \<and> \<not> P (counterReducer s' a)" if "P s1" "\<not> P s2" "0 + s2 = s2"
  proof (cases "P 0")
    case True
    with that increment have "P 0 \<and> \<not> P (counterReducer 0 \<lparr>type = ''INCREMENT'', payload = s2\<rparr>)"
      by simp
    then show ?thesis by blast
  next
    case False
    with that reset have "P s1 \<and> \<not> P (counterReducer s1 \<lparr>type = ''RESET'', payload = s2\<rparr>)"
      by simp
    then show ?thesis by blast
  qed
  then show ?thesis
    by (simp add: ThemeProvider_value_def useState_setter_def)
qed

theorem theme_invariant_counter_none_witness:
  "(0::int) \<le> 0 \<and> \<not> (0::int) \<le> - 1 \<and> (0::int) + - 1 = - 1 \<and>
   (\<exists>s' a. (0::int) \<le> s' \<and> \<not> 0 \<le> counterReducer s' a)"
  using theme_invariant_counter_none [of light dark "\<lambda>n. 0 \<le> n" "0::int" "- 1"]
  by simp

section \<open>The API client and its caller\<close>

text \<open>
  C4, as the specification states it: no error thrown or rethrown by \<^verbatim>\<open>fetchUser\<close> is
  received by a caller such as \<^verbatim>\<open>loadUserData\<close>. A response with \<^verbatim>\<open>ok\<close> false and status
  500 refutes it: \<^verbatim>\<open>fetchUser('123')\<close> rejects with \<^verbatim>\<open>Error('HTTP error: 500')\<close>, and
  \<^verbatim>\<open>loadUserData\<close> ends with that error's message in the error state, the loading flag
  cleared and the error logged once.
\<close>

theorem fetchUser_error_received_counterexample:
  "snd (fetchUser unsigned_short_toString
          (\<lambda>url. Inr \<lparr>ok = False, status = 500, json = Inl (NonError Undefined)\<rparr>) ''123'' [])
     = Inl (Error ''HTTP error: 500'') \<and>
   loadUserData unsigned_short_toString
       (\<lambda>url. Inr \<lparr>ok = False, status = 500, json = Inl (NonError Undefined)\<rparr>)
       \<lparr>user_state = None, error_state = Null, loading_state = True\<rparr> []
     = (\<lparr>user_state = None, error_state = String ''HTTP error: 500'', loading_state = False\<rparr>,
        [(''Error fetching user:'', Error ''HTTP error: 500'')], Fulfilled)"
  by (simp add: loadUserData_def fetchUser_def fetchUser_try_def unsigned_short_toString_def)

text \<open>
  C4, amended. An error raised inside \<^verbatim>\<open>fetchUser\<close> propagates to its caller. When the
  response is not \<^verbatim>\<open>ok\<close>, \<^verbatim>\<open>fetchUser\<close> logs \<^verbatim>\<open>Error('HTTP error: <status>')\<close> and rejects
  with it. Whenever \<^verbatim>\<open>fetchUser('123')\<close> rejects with an \<^verbatim>\<open>Error\<close> instance \<open>e\<close>, the
  \<^verbatim>\<open>catch\<close> of \<^verbatim>\<open>loadUserData\<close> receives \<open>e\<close>: it stores the message of \<open>e\<close> with
  \<^verbatim>\<open>setError\<close>, the \<^verbatim>\<open>finally\<close> clears the loading flag, and \<^verbatim>\<open>loadUserData\<close> itself
  fulfils, so the error goes no further.
\<close>

theorem fetchUser_error_propagates:
  "(fetch ''https://api.example.com/users/123'' = Inr response \<and> \<not> ok response \<longrightarrow>
      fetchUser toString fetch ''123'' console =
        (console @ [(''Error fetching user:'',
                     Error (''HTTP error: '' @ toString (Response.status response)))],
         Inl (Error (''HTTP error: '' @ toString (Response.status response))))) \<and>
   (snd (fetchUser toString fetch ''123'' console) = Inl e \<and> instanceof e Error_class = Inr True \<longrightarrow>
      loadUserData toString fetch st console =
        (st\<lparr>error_state := String (message e), loading_state := False\<rparr>,
         console @ [(''Error fetching user:'', e)], Fulfilled))"
proof -
  have a: "fetch ''https://api.example.com/users/123'' = Inr response \<and> \<not> ok response \<longrightarrow>
      fetchUser toString fetch ''123'' console =
        (console @ [(''Error fetching user:'',
                     Error (''HTTP error: '' @ toString (Response.status response)))],
         Inl (Error (''HTTP error: '' @ toString (Response.status response))))"
    by (simp add: fetchUser_def fetchUser_try_def)
  have b: "get_message e = Some (String (message e))" if "instanceof e Error_class = Inr True"
    using that by (cases e) simp_all
  have c: "snd (fetchUser toString fetch ''123'' console) = Inl e \<and>
      instanceof e Error_class = Inr True \<longrightarrow>
      loadUserData toString fetch st console =
        (st\<lparr>error_state := String (message e), loading_state := False\<rparr>,
         console @ [(''Error fetching user:'', e)], Fulfilled)"
    by (auto simp: loadUserData_def fetchUser_def b split: sum.splits)
  from a c show ?thesis by blast
qed

theorem fetchUser_error_propagates_witness:
  "(\<lambda>url. Inr \<lparr>ok = False, status = 404 :: 16 word, json = Inl (NonError Null)\<rparr>)
       ''https://api.example.com/users/123''
     = Inr \<lparr>ok = False, status = 404 :: 16 word, json = Inl (NonError Null)\<rparr> \<and>
   \<not> ok \<lparr>ok = False, status = 404 :: 16 word, json = Inl (NonError Null)\<rparr> \<and>
   snd (fetchUser unsigned_short_toString
          (\<lambda>url. Inr \<lparr>ok = False, status = 404, json = Inl (NonError Null)\<rparr>) ''123'' [])
     = Inl (Error ''HTTP error: 404'') \<and>
   instanceof (Error ''HTTP error: 404'' :: 16 word unknown) Error_class = Inr True \<and>
   loadUserData unsigned_short_toString
       (\<lambda>url. Inr \<lparr>ok = False, status = 404, json = Inl (NonError Null)\<rparr>)
       \<lparr>user_state = None, error_state = Undefined, loading_state = True\<rparr> []
     = (\<lparr>user_state = None, error_state = String ''HTTP error: 404'', loading_state = False\<rparr>,
        [(''Error fetching user:'', Error ''HTTP error: 404'')], Fulfilled)"
  using fetchUser_error_propagates
    [of "\<lambda>url. Inr \<lparr>ok = False, status = 404, json = Inl (NonError Null)\<rparr>"
        "\<lparr>ok = False, status = 404, json = Inl (NonError Null)\<rparr>"
        unsigned_short_toString
        "[]" "Error ''HTTP error: 404''"
        "\<lparr>user_state = None, error_state = Undefined, loading_state = True\<rparr>"]
  by (simp add: unsigned_short_toString_def)

section \<open>Names shared between code blocks\<close>

text \<open>
  C9, as the specification states it: no definition of one snippet references a
  definition of another; \<^verbatim>\<open>loadUserData\<close> uses only names defined in its own snippet, and
  the \<^verbatim>\<open>createInitialState\<close> usage depends on no type defined elsewhere. The block of
  lines 306-344 refutes it: \<^verbatim>\<open>createInitialState<User>()\<close> names the type \<^verbatim>\<open>User\<close>,
  which that block does not declare and the block of lines 265-300 does. So does the
  block of lines 265-300 itself: \<^verbatim>\<open>loadUserData\<close> calls \<^verbatim>\<open>setUser\<close>, declared in the block
  of lines 143-179 and not in its own.
\<close>

theorem blocks_standalone_counterexample:
  "((''Guide.tsx'', 306), ''User'', (''Guide.tsx'', 265)) \<in> set taken_from_other_blocks \<and>
   ((''Guide.tsx'', 265), ''setUser'', (''Guide.tsx'', 143)) \<in> set taken_from_other_blocks"
  by code_simp

text \<open>
  C9, amended. The code blocks are standalone with two exceptions. The block of
  \<^verbatim>\<open>loadUserData\<close> (Guide.tsx, lines 265-300) calls \<^verbatim>\<open>setUser\<close>, which only the state
  block (lines 143-179) declares, and \<^verbatim>\<open>setError\<close> and \<^verbatim>\<open>setLoading\<close>, which no block
  declares. The block of \<^verbatim>\<open>createInitialState\<close> (lines 306-344) names the type \<^verbatim>\<open>User\<close>,
  which it does not declare; the block before it (lines 265-300) and two blocks of
  KeyPoint.tsx (lines 82-110 and 313-343) declare a type of that name. No other block
  uses a name that another block declares, and no block is listed as taking from outside
  a name of its own.
\<close>

theorem blocks_standalone_except:
  "taken_from_other_blocks =
     [((''Guide.tsx'', 265), ''setUser'', (''Guide.tsx'', 143)),
      ((''Guide.tsx'', 306), ''User'', (''Guide.tsx'', 265)),
      ((''Guide.tsx'', 306), ''User'', (''KeyPoint.tsx'', 82)),
      ((''Guide.tsx'', 306), ''User'', (''KeyPoint.tsx'', 313))] \<and>
   declared_in ''setError'' = [] \<and>
   declared_in ''setLoading'' = [] \<and>
   own_names_outside = []"
  by code_simp

end
